theory Spec2Isabelle
  imports Complex_Main
begin

section \<open>Numbers\<close>

text \<open>
  The sliders compute with JavaScript numbers. They are modelled as exact reals, so
  every statement below is about exact arithmetic and says nothing about rounding of
  IEEE doubles. A division whose divisor is zero gives no finite number in JavaScript
  (\<open>0/0\<close> is NaN, \<open>x/0\<close> is an infinity); in HOL \<open>x / 0 = 0\<close>, so division is made a
  partial operation here and every function that divides returns an option.
\<close>

definition js_divide :: "real \<Rightarrow> real \<Rightarrow> real option" where
  "js_divide a b = (if b = 0 then None else Some (a / b))"

text \<open>\<open>Math.round\<close> rounds to the nearest integer, halves towards plus infinity.\<close>

definition Math_round :: "real \<Rightarrow> real" where
  "Math_round x = of_int \<lfloor>x + 1 / 2\<rfloor>"

definition Math_max :: "real \<Rightarrow> real \<Rightarrow> real" where
  "Math_max a b = (if a < b then b else a)"

definition Math_min :: "real \<Rightarrow> real \<Rightarrow> real" where
  "Math_min a b = (if b < a then b else a)"

definition Math_abs :: "real \<Rightarrow> real" where
  "Math_abs x = (if x < 0 then - x else x)"

section \<open>Interpolation (react-native-reanimated)\<close>

datatype extrapolation = Extend | Clamp

text \<open>
  Modelled from the spec: \<open>interpolate\<close> is imported from the library
  react-native-reanimated, whose code is not among the sources. The spec asks for a
  linear interpolation from the input range to the output range in which a zero-width
  input range returns the left end of the output range without dividing; with the
  option \<open>"clamp"\<close> the result is kept inside the output range, and without an option
  the line is extended. The two ranges have two points each at every call site.
\<close>

definition interpolate ::
  "real \<Rightarrow> real \<times> real \<Rightarrow> real \<times> real \<Rightarrow> extrapolation \<Rightarrow> real option" where
  "interpolate x inputRange outputRange type =
     (let leftEdgeInput = fst inputRange; rightEdgeInput = snd inputRange;
          leftEdgeOutput = fst outputRange; rightEdgeOutput = snd outputRange
      in if rightEdgeInput - leftEdgeInput = 0 then Some leftEdgeOutput
         else case js_divide (x - leftEdgeInput) (rightEdgeInput - leftEdgeInput) of
           None \<Rightarrow> None
         | Some progress \<Rightarrow>
             let val = leftEdgeOutput + progress * (rightEdgeOutput - leftEdgeOutput);
                 coef = (if rightEdgeOutput \<ge> leftEdgeOutput then 1 else - 1)
             in if coef * val < coef * leftEdgeOutput
                then Some (case type of Clamp \<Rightarrow> leftEdgeOutput | Extend \<Rightarrow> val)
                else if coef * val > coef * rightEdgeOutput
                then Some (case type of Clamp \<Rightarrow> rightEdgeOutput | Extend \<Rightarrow> val)
                else Some val)"

section \<open>Value mapper (lib/utils)\<close>

definition clampPosition :: "real \<Rightarrow> real \<Rightarrow> real \<Rightarrow> real" where
  "clampPosition position mn mx = Math_max mn (Math_min mx position)"

definition calculateSteppedValue :: "real \<Rightarrow> real \<Rightarrow> real \<Rightarrow> real \<Rightarrow> real option" where
  "calculateSteppedValue v step mn mx =
     (case (if step > 0
            then map_option (\<lambda>q. Math_round q * step) (js_divide v step)
            else Some v) of
        None \<Rightarrow> None
      | Some steppedValue \<Rightarrow> Some (Math_max mn (Math_min mx steppedValue)))"

definition positionToValue :: "real \<Rightarrow> real \<Rightarrow> real \<Rightarrow> real \<Rightarrow> real \<Rightarrow> real option" where
  "positionToValue position trackWidth mn mx step =
     (let clampedPosition = clampPosition position 0 trackWidth
      in case interpolate clampedPosition (0, trackWidth) (mn, mx) Extend of
           None \<Rightarrow> None
         | Some rawValue \<Rightarrow> calculateSteppedValue rawValue step mn mx)"

section \<open>Theme colours (lib/constants, lib/utils)\<close>

datatype theme = Light | Dark

text \<open>
  The five colour slots. The theme table fills every slot with a string; the
  \<open>customColors\<close> argument of \<open>useThemeColors\<close> has the same slots, each optional.
\<close>

record 'a color_slots =
  trackColor :: 'a
  activeTrackColor :: 'a
  thumbColor :: 'a
  thumbBorderColor :: 'a
  thumbFocusRingColor :: 'a

fun THEME_COLORS :: "theme \<Rightarrow> string color_slots" where
  "THEME_COLORS Light =
     \<lparr>trackColor = ''#F5F5F5'', activeTrackColor = ''#171717'', thumbColor = ''#FFFFFF'',
      thumbBorderColor = ''#171717'', thumbFocusRingColor = ''#D0D0D0''\<rparr>"
| "THEME_COLORS Dark =
     \<lparr>trackColor = ''#262626'', activeTrackColor = ''#E5E5E5'', thumbColor = ''#0A0A0A'',
      thumbBorderColor = ''#E5E5E5'', thumbFocusRingColor = ''#3F3F3F''\<rparr>"

text \<open>\<open>a ?? b\<close>: the left operand unless it is absent.\<close>

definition nullish :: "'a option \<Rightarrow> 'a \<Rightarrow> 'a" where
  "nullish a b = (case a of None \<Rightarrow> b | Some v \<Rightarrow> v)"

definition useThemeColors :: "theme \<Rightarrow> string option color_slots \<Rightarrow> string color_slots" where
  "useThemeColors th customColors =
     (let themeColors = THEME_COLORS th
      in \<lparr>trackColor = nullish (trackColor customColors) (trackColor themeColors),
          activeTrackColor =
            nullish (activeTrackColor customColors) (activeTrackColor themeColors),
          thumbColor = nullish (thumbColor customColors) (thumbColor themeColors),
          thumbBorderColor =
            nullish (thumbBorderColor customColors) (thumbBorderColor themeColors),
          thumbFocusRingColor =
            nullish (thumbFocusRingColor customColors) (thumbFocusRingColor themeColors)\<rparr>)"

definition noCustomColors :: "string option color_slots" where
  "noCustomColors =
     \<lparr>trackColor = None, activeTrackColor = None, thumbColor = None,
      thumbBorderColor = None, thumbFocusRingColor = None\<rparr>"

section \<open>Props shared by the two components\<close>

text \<open>
  The props that enter the position and value computations, after the defaults of the
  parameter list have been applied. The props \<open>min\<close> and \<open>max\<close> are the fields
  \<open>min_val\<close> and \<open>max_val\<close>.
\<close>

record CommonProps =
  min_val :: real
  max_val :: real
  step :: real
  width :: real
  thumbSize :: real
  tapToMove :: bool

definition trackWidth :: "'a CommonProps_scheme \<Rightarrow> real" where
  "trackWidth P = width P - thumbSize P"

section \<open>Slider (single thumb)\<close>

record SliderProps = CommonProps +
  initialValue :: real

record slider_state =
  position :: real
  startPosition :: real
  isThumbActive :: real

definition Slider_mount :: "SliderProps \<Rightarrow> slider_state option" where
  "Slider_mount P =
     map_option (\<lambda>p. \<lparr>position = p, startPosition = 0, isThumbActive = 0\<rparr>)
       (interpolate (initialValue P) (min_val P, max_val P) (0, trackWidth P) Clamp)"

text \<open>\<open>updateValue\<close>: the value handed to \<open>onValueChange\<close> for a position.\<close>

definition updateValue :: "SliderProps \<Rightarrow> real \<Rightarrow> real option" where
  "updateValue P newPosition =
     positionToValue newPosition (trackWidth P) (min_val P) (max_val P) (step P)"

section \<open>RangeSlider (two thumbs)\<close>

record RangeSliderProps = CommonProps +
  initialMin :: real
  initialMax :: real

text \<open>The shared values of a mounted RangeSlider.\<close>

record range_state =
  leftPosition :: real
  rightPosition :: real
  startLeftPosition :: real
  startRightPosition :: real
  isLeftThumbActive :: real
  isRightThumbActive :: real

definition RangeSlider_mount :: "RangeSliderProps \<Rightarrow> range_state option" where
  "RangeSlider_mount P =
     (case interpolate (initialMin P) (min_val P, max_val P) (0, trackWidth P) Clamp of
        None \<Rightarrow> None
      | Some l \<Rightarrow>
         (case interpolate (initialMax P) (min_val P, max_val P) (0, trackWidth P) Clamp of
            None \<Rightarrow> None
          | Some r \<Rightarrow>
              Some \<lparr>leftPosition = l, rightPosition = r,
                    startLeftPosition = 0, startRightPosition = 0,
                    isLeftThumbActive = 0, isRightThumbActive = 0\<rparr>))"

text \<open>
  \<open>updateRangeValues\<close> reads the two positions and computes the pair handed to
  \<open>onRangeChange\<close>. It writes no shared value, so the handlers below, which all end
  by calling it, are modelled by their writes to the shared values alone.
\<close>

definition updateRangeValues :: "RangeSliderProps \<Rightarrow> range_state \<Rightarrow> (real \<times> real) option" where
  "updateRangeValues P s =
     Option.bind (interpolate (leftPosition s) (0, trackWidth P) (min_val P, max_val P) Clamp)
      (\<lambda>leftValue.
     Option.bind (interpolate (rightPosition s) (0, trackWidth P) (min_val P, max_val P) Clamp)
      (\<lambda>rightValue.
     Option.bind (calculateSteppedValue leftValue (step P) (min_val P) (max_val P))
      (\<lambda>finalLeftValue.
     Option.bind (calculateSteppedValue rightValue (step P) (min_val P) (max_val P))
      (\<lambda>finalRightValue. Some (finalLeftValue, finalRightValue)))))"

text \<open>
  The handlers. \<open>withTiming(v)\<close> starts an animation of the shared value towards
  \<open>v\<close>; the model stores \<open>v\<close>, the value the animation settles at.
\<close>

definition leftPanGesture_onStart :: "range_state \<Rightarrow> range_state" where
  "leftPanGesture_onStart s = s\<lparr>startLeftPosition := leftPosition s, isLeftThumbActive := 1\<rparr>"

definition leftPanGesture_onUpdate :: "RangeSliderProps \<Rightarrow> real \<Rightarrow> range_state \<Rightarrow> range_state" where
  "leftPanGesture_onUpdate P translationX s =
     (let newPosition = startLeftPosition s + translationX
      in s\<lparr>leftPosition := Math_min newPosition (rightPosition s - thumbSize P)\<rparr>)"

definition leftPanGesture_onFinalize :: "range_state \<Rightarrow> range_state" where
  "leftPanGesture_onFinalize s = s\<lparr>isLeftThumbActive := 0\<rparr>"

definition rightPanGesture_onStart :: "range_state \<Rightarrow> range_state" where
  "rightPanGesture_onStart s =
     s\<lparr>startRightPosition := rightPosition s, isRightThumbActive := 1\<rparr>"

definition rightPanGesture_onUpdate :: "RangeSliderProps \<Rightarrow> real \<Rightarrow> range_state \<Rightarrow> range_state" where
  "rightPanGesture_onUpdate P translationX s =
     (let newPosition = startRightPosition s + translationX
      in s\<lparr>rightPosition := Math_max newPosition (leftPosition s + thumbSize P)\<rparr>)"

definition rightPanGesture_onFinalize :: "range_state \<Rightarrow> range_state" where
  "rightPanGesture_onFinalize s = s\<lparr>isRightThumbActive := 0\<rparr>"

text \<open>The tap handler is attached with \<open>.enabled(tapToMove)\<close>: a disabled gesture never fires.\<close>

definition tapGesture_onStart :: "RangeSliderProps \<Rightarrow> real \<Rightarrow> range_state \<Rightarrow> range_state" where
  "tapGesture_onStart P x s =
     (if tapToMove P then
        (let tapX = x - thumbSize P / 2;
             clampedPosition = clampPosition tapX 0 (trackWidth P);
             distToLeft = Math_abs (clampedPosition - leftPosition s);
             distToRight = Math_abs (clampedPosition - rightPosition s)
         in if distToLeft < distToRight
            then s\<lparr>leftPosition := clampedPosition\<rparr>
            else s\<lparr>rightPosition := clampedPosition\<rparr>)
      else s)"

text \<open>The gesture runtime delivers events one at a time; the payload is
  \<open>event.translationX\<close> for a pan update and \<open>event.x\<close> for a tap.\<close>

datatype gesture_event =
    LeftPanStart | LeftPanUpdate real | LeftPanFinalize
  | RightPanStart | RightPanUpdate real | RightPanFinalize
  | TapStart real

fun handle :: "RangeSliderProps \<Rightarrow> range_state \<Rightarrow> gesture_event \<Rightarrow> range_state" where
  "handle P s LeftPanStart = leftPanGesture_onStart s"
| "handle P s (LeftPanUpdate t) = leftPanGesture_onUpdate P t s"
| "handle P s LeftPanFinalize = leftPanGesture_onFinalize s"
| "handle P s RightPanStart = rightPanGesture_onStart s"
| "handle P s (RightPanUpdate t) = rightPanGesture_onUpdate P t s"
| "handle P s RightPanFinalize = rightPanGesture_onFinalize s"
| "handle P s (TapStart x) = tapGesture_onStart P x s"

definition run :: "RangeSliderProps \<Rightarrow> range_state \<Rightarrow> gesture_event list \<Rightarrow> range_state" where
  "run P s es = foldl (handle P) s es"

fun is_pan_update :: "gesture_event \<Rightarrow> bool" where
  "is_pan_update (LeftPanUpdate t) = True"
| "is_pan_update (RightPanUpdate t) = True"
| "is_pan_update e = False"

text \<open>The range invariant of the data model: the thumbs neither cross nor overlap.\<close>

definition range_invariant :: "RangeSliderProps \<Rightarrow> range_state \<Rightarrow> bool" where
  "range_invariant P s = (leftPosition s + thumbSize P \<le> rightPosition s)"

section \<open>The value mapper as the specification words it\<close>

text \<open>
  The reference definition of \<open>positionToValue\<close>, written from the specification and
  not from the code: clamp the position to the track, interpolate linearly (a track
  of width zero gives \<open>min\<close>), then quantize and clamp again if \<open>step > 0\<close>, and
  return the interpolated value as it is otherwise.
\<close>

definition clamp_spec :: "real \<Rightarrow> real \<Rightarrow> real \<Rightarrow> real" where
  "clamp_spec x lo hi = max lo (min hi x)"

definition lerp_spec :: "real \<Rightarrow> real \<Rightarrow> real \<Rightarrow> real \<Rightarrow> real" where
  "lerp_spec x w lo hi = (if w = 0 then lo else lo + x / w * (hi - lo))"

definition positionToValue_spec :: "real \<Rightarrow> real \<Rightarrow> real \<Rightarrow> real \<Rightarrow> real \<Rightarrow> real" where
  "positionToValue_spec p w mn mx st =
     (let v = lerp_spec (clamp_spec p 0 w) w mn mx
      in if st > 0 then clamp_spec (of_int (round (v / st)) * st) mn mx else v)"

text \<open>The value the interpolation of \<open>positionToValue\<close> computes, in closed form.\<close>

definition rawValue :: "real \<Rightarrow> real \<Rightarrow> real \<Rightarrow> real \<Rightarrow> real" where
  "rawValue p tw mn mx =
     (if tw = 0 then mn else mn + max 0 (min tw p) / tw * (mx - mn))"

section \<open>Example configurations\<close>

text \<open>A Slider from 0 to 100 in steps of 10 on a track of 280 pixels, mounted at 50.\<close>

definition example_slider :: SliderProps where
  "example_slider =
     \<lparr>min_val = 0, max_val = 100, step = 10, width = 300, thumbSize = 20, tapToMove = True,
      initialValue = 50\<rparr>"

text \<open>A RangeSlider from 0 to 100 on a track of 100 pixels with thumbs of 20 pixels,
  mounted with the range 0 to 30, and the shared values it is mounted with.\<close>

definition example_range :: RangeSliderProps where
  "example_range =
     \<lparr>min_val = 0, max_val = 100, step = 1, width = 120, thumbSize = 20, tapToMove = True,
      initialMin = 0, initialMax = 30\<rparr>"

definition example_mounted :: range_state where
  "example_mounted =
     \<lparr>leftPosition = 0, rightPosition = 30, startLeftPosition = 0, startRightPosition = 0,
      isLeftThumbActive = 0, isRightThumbActive = 0\<rparr>"

text \<open>The default RangeSlider (width 300, thumbs of 20 pixels) with both initial values at 50.\<close>

definition example_collapsed :: RangeSliderProps where
  "example_collapsed =
     \<lparr>min_val = 0, max_val = 100, step = 1, width = 300, thumbSize = 20, tapToMove = True,
      initialMin = 50, initialMax = 50\<rparr>"

section \<open>Basic facts\<close>

lemma Math_max_eq: "Math_max a b = max a b"
  by (simp add: Math_max_def max_def)

lemma Math_min_eq: "Math_min a b = min a b"
  by (simp add: Math_min_def min_def)

lemma clampPosition_eq: "clampPosition p lo hi = max lo (min hi p)"
  by (simp add: clampPosition_def Math_max_eq Math_min_eq)

lemma Math_abs_eq: "Math_abs x = \<bar>x\<bar>"
  by (simp add: Math_abs_def abs_if)

lemma Math_round_of_int: "Math_round (of_int k) = of_int k"
proof -
  have "\<lfloor>(of_int k :: real) + 1 / 2\<rfloor> = k" by linarith
  then show ?thesis by (simp add: Math_round_def)
qed

lemma calculateSteppedValue_eq:
  "calculateSteppedValue v st mn mx =
     Some (max mn (min mx (if st > 0 then Math_round (v / st) * st else v)))"
  by (simp add: calculateSteppedValue_def js_divide_def Math_max_eq Math_min_eq)

section \<open>Closed forms of the value mapper\<close>

lemma interpolate_Extend:
  "interpolate x (a, b) (c, d) Extend =
     Some (if b - a = 0 then c else c + (x - a) / (b - a) * (d - c))"
  by (simp add: interpolate_def js_divide_def Let_def)

lemma interpolate_Clamp:
  "interpolate x (a, b) (c, d) Clamp =
     Some (if b - a = 0 then c
           else max (min c d) (min (max c d) (c + (x - a) / (b - a) * (d - c))))"
  by (auto simp add: interpolate_def js_divide_def Let_def max_def min_def)

lemma positionToValue_eq:
  "positionToValue p tw mn mx st =
     Some (max mn (min mx (if st > 0 then Math_round (rawValue p tw mn mx / st) * st
                           else rawValue p tw mn mx)))"
  by (simp add: positionToValue_def interpolate_Extend calculateSteppedValue_eq
      clampPosition_eq rawValue_def Let_def)

lemma rawValue_bounds:
  assumes "mn \<le> mx"
  shows "mn \<le> rawValue p tw mn mx \<and> rawValue p tw mn mx \<le> mx"
proof (cases "tw > 0")
  case True
  define t where "t = max 0 (min tw p) / tw"
  have t: "0 \<le> t" "t \<le> 1" using True by (simp_all add: t_def)
  have r: "rawValue p tw mn mx = mn + t * (mx - mn)"
    using True by (simp add: rawValue_def t_def)
  have "0 \<le> t * (mx - mn)" using t assms by simp
  moreover have "t * (mx - mn) \<le> 1 * (mx - mn)"
    using t assms by (intro mult_right_mono) simp_all
  ultimately show ?thesis unfolding r by simp
next
  case False
  then have "max 0 (min tw p) = 0" by simp
  then show ?thesis using assms by (simp add: rawValue_def)
qed

lemma rawValue_nonpos_track: "tw \<le> 0 \<Longrightarrow> rawValue p tw mn mx = mn"
proof -
  assume "tw \<le> 0"
  then have "max 0 (min tw p) = 0" by simp
  then show ?thesis by (simp add: rawValue_def)
qed

lemma rawValue_mono:
  assumes "0 < tw" "mn \<le> mx" "0 \<le> p1" "p1 \<le> p2" "p2 \<le> tw"
  shows "rawValue p1 tw mn mx \<le> rawValue p2 tw mn mx"
proof -
  have c: "max 0 (min tw p1) = p1" "max 0 (min tw p2) = p2" using assms by simp_all
  have "p1 / tw \<le> p2 / tw" using assms by (simp add: divide_right_mono)
  then have "p1 / tw * (mx - mn) \<le> p2 / tw * (mx - mn)"
    using assms by (intro mult_right_mono) simp_all
  then show ?thesis using assms c by (simp add: rawValue_def)
qed

lemma positionToValue_spec_eq:
  "positionToValue_spec p tw mn mx st =
     (if st > 0 then max mn (min mx (Math_round (rawValue p tw mn mx / st) * st))
      else rawValue p tw mn mx)"
  by (simp add: positionToValue_spec_def lerp_spec_def clamp_spec_def rawValue_def
      Math_round_def round_def Let_def)

section \<open>Claims about the value mapper\<close>

text \<open>
  C1: for \<open>min \<le> max\<close>, \<open>positionToValue\<close> returns a number, and it is the number of
  the reference definition: the position clamped to the track, interpolated linearly
  to \<open>[min, max]\<close>, then for \<open>step > 0\<close> rounded to a multiple of the step and clamped
  to \<open>[min, max]\<close>, and for \<open>step \<le> 0\<close> left unquantized. (The code clamps in both
  cases; for \<open>min \<le> max\<close> the clamp of the unquantized value changes nothing.)
\<close>

theorem positionToValue_refines_spec:
  assumes "mn \<le> mx"
  shows "positionToValue p tw mn mx st = Some (positionToValue_spec p tw mn mx st)"
proof (cases "st > 0")
  case True
  then show ?thesis by (simp add: positionToValue_eq positionToValue_spec_eq)
next
  case False
  have "max mn (min mx (rawValue p tw mn mx)) = rawValue p tw mn mx"
    using rawValue_bounds [OF assms, of p tw] by simp
  then show ?thesis using False by (simp add: positionToValue_eq positionToValue_spec_eq)
qed

theorem positionToValue_refines_spec_witness:
  "(0::real) \<le> 100
    \<and> positionToValue 53 100 0 100 10 = Some (positionToValue_spec 53 100 0 100 10)
    \<and> positionToValue_spec 53 100 0 100 10 = 50"
  using positionToValue_refines_spec [of 0 100 53 100 10]
  by (simp add: positionToValue_spec_def lerp_spec_def clamp_spec_def round_def)

text \<open>
  C4 as stated fails: on a track of width \<open>- 5\<close> (and of width zero) with \<open>min = 7\<close>,
  \<open>max = 100\<close> and \<open>step = 10\<close> the result is 10, the multiple of the step nearest to
  \<open>min\<close>, not \<open>min\<close>.
\<close>

theorem positionToValue_nonpos_track_counterexample:
  "(- 5::real) \<le> 0 \<and> positionToValue 5 (- 5) 7 100 10 = Some 10
     \<and> positionToValue 5 (- 5) 7 100 10 \<noteq> Some 7
     \<and> positionToValue 5 0 7 100 10 = Some 10"
  by (simp add: positionToValue_def interpolate_def js_divide_def clampPosition_def
      calculateSteppedValue_def Math_max_def Math_min_def Math_round_def)

text \<open>
  C4, amended: if \<open>trackWidth \<le> 0\<close> then \<open>positionToValue\<close> divides by no zero and
  returns a number, the one \<open>calculateSteppedValue\<close> makes of \<open>min\<close>: \<open>min\<close> quantized
  to the step (for \<open>step > 0\<close>) and clamped to \<open>[min, max]\<close>. That number is \<open>min\<close> itself
  when \<open>step \<le> 0\<close> or when \<open>min\<close> is an integer multiple of the step.
\<close>

theorem positionToValue_nonpos_track:
  assumes "tw \<le> 0"
  shows "positionToValue p tw mn mx st
           = Some (max mn (min mx (if st > 0 then Math_round (mn / st) * st else mn)))
         \<and> positionToValue p tw mn mx st = calculateSteppedValue mn st mn mx
         \<and> (st \<le> 0 \<or> (\<exists>k::int. mn = of_int k * st)
              \<longrightarrow> positionToValue p tw mn mx st = Some mn)"
proof -
  have e: "positionToValue p tw mn mx st
           = Some (max mn (min mx (if st > 0 then Math_round (mn / st) * st else mn)))"
    using assms by (simp add: positionToValue_eq rawValue_nonpos_track)
  have m: "positionToValue p tw mn mx st = Some mn" if "0 < st" "mn = of_int k * st" for k :: int
  proof -
    have "mn / st = of_int k" using that by simp
    then have "Math_round (mn / st) * st = mn"
      using that by (simp add: Math_round_of_int)
    then show ?thesis using that e by simp
  qed
  have z: "positionToValue p tw mn mx st = Some mn" if "st \<le> 0"
    using that e by simp
  show ?thesis using e m z by (auto simp add: calculateSteppedValue_eq not_less)
qed

theorem positionToValue_nonpos_track_witness:
  "(0::real) \<le> 0 \<and> (10 \<le> (0::real) \<or> (\<exists>k::int. (20::real) = of_int k * 10))
    \<and> positionToValue 5 0 20 100 10 = Some 20
    \<and> positionToValue 5 0 20 100 10 = calculateSteppedValue 20 10 20 100"
proof -
  have h: "(0::real) \<le> 0" by simp
  have "(20::real) = of_int 2 * 10" by simp
  then have k: "10 \<le> (0::real) \<or> (\<exists>k::int. (20::real) = of_int k * 10)" by blast
  from positionToValue_nonpos_track [OF h, of 5 20 100 10] h k show ?thesis by blast
qed

text \<open>
  C5: for \<open>min \<le> max\<close> and \<open>trackWidth > 0\<close>, whatever the step and the position
  (also one outside the track), \<open>positionToValue\<close> returns a number in \<open>[min, max]\<close>.
\<close>

theorem positionToValue_in_bounds:
  assumes "mn \<le> mx" and "0 < tw"
  shows "\<exists>v. positionToValue p tw mn mx st = Some v \<and> mn \<le> v \<and> v \<le> mx"
  using assms by (simp add: positionToValue_eq)

theorem positionToValue_in_bounds_witness:
  "(0::real) \<le> 100 \<and> (0::real) < 280
    \<and> (\<exists>v. positionToValue (-40) 280 0 100 7 = Some v \<and> 0 \<le> v \<and> v \<le> 100)
    \<and> (\<exists>v. positionToValue 1000 280 0 100 7 = Some v \<and> 0 \<le> v \<and> v \<le> 100)"
  using positionToValue_in_bounds [of 0 100 280 "-40" 7]
    positionToValue_in_bounds [of 0 100 280 1000 7]
  by simp

text \<open>
  C8: on a track of positive width, with \<open>min \<le> max\<close> and step 0, \<open>positionToValue\<close>
  is monotonically non-decreasing in the position over \<open>[0, trackWidth]\<close>.
\<close>

theorem positionToValue_mono:
  assumes "0 < tw" "mn \<le> mx" "0 \<le> p1" "p1 \<le> p2" "p2 \<le> tw"
  shows "\<exists>v1 v2. positionToValue p1 tw mn mx 0 = Some v1
           \<and> positionToValue p2 tw mn mx 0 = Some v2 \<and> v1 \<le> v2"
proof -
  have "rawValue p1 tw mn mx \<le> rawValue p2 tw mn mx"
    using assms by (rule rawValue_mono)
  then have "max mn (min mx (rawValue p1 tw mn mx)) \<le> max mn (min mx (rawValue p2 tw mn mx))"
    by (simp add: max.coboundedI2 min.coboundedI2)
  then show ?thesis by (simp add: positionToValue_eq)
qed

theorem positionToValue_mono_witness:
  "(0::real) < 100 \<and> (0::real) \<le> 50 \<and> (0::real) \<le> 10 \<and> (10::real) \<le> 60 \<and> (60::real) \<le> 100
    \<and> positionToValue 10 100 0 50 0 = Some 5 \<and> positionToValue 60 100 0 50 0 = Some 30
    \<and> (\<exists>v1 v2. positionToValue 10 100 0 50 0 = Some v1
           \<and> positionToValue 60 100 0 50 0 = Some v2 \<and> v1 \<le> v2)"
  using positionToValue_mono [of 100 0 50 10 60]
  by (simp add: positionToValue_eq rawValue_def)

text \<open>
  C6: for \<open>min \<le> max\<close>, a track of positive width, \<open>step > 0\<close> and an initial value
  in \<open>[min, max]\<close> that is an integer multiple of the step, the Slider mounts at the
  position interpolated from the value (clamped, unquantized), and \<open>positionToValue\<close>
  at that position, as \<open>updateValue\<close> calls it, returns exactly the initial value.
\<close>

theorem Slider_round_trip:
  assumes "min_val P \<le> max_val P" and "0 < trackWidth P" and "0 < step P"
    and "min_val P \<le> initialValue P" and "initialValue P \<le> max_val P"
    and "initialValue P = of_int k * step P"
  shows "\<exists>s. Slider_mount P = Some s
           \<and> position s = (if max_val P = min_val P then 0
                else (initialValue P - min_val P) / (max_val P - min_val P) * trackWidth P)
           \<and> updateValue P (position s) = Some (initialValue P)"
proof -
  define mn mx tw st v where "mn = min_val P" and "mx = max_val P" and "tw = trackWidth P"
    and "st = step P" and "v = initialValue P"
  note d = mn_def mx_def tw_def st_def v_def
  have a: "mn \<le> mx" "0 < tw" "0 < st" "mn \<le> v" "v \<le> mx" "v = of_int k * st"
    using assms by (simp_all add: d)
  define p where "p = (if mx = mn then 0 else (v - mn) / (mx - mn) * tw)"
  have q: "Math_round (v / st) * st = v"
  proof -
    have "v / st = of_int k" using a by simp
    then show ?thesis using a by (simp add: Math_round_of_int)
  qed
  have ip: "interpolate v (mn, mx) (0, tw) Clamp = Some p"
  proof (cases "mx = mn")
    case True
    then show ?thesis by (simp add: interpolate_Clamp p_def)
  next
    case False
    define t where "t = (v - mn) / (mx - mn)"
    have t: "0 \<le> t" "t \<le> 1" using a False by (simp_all add: t_def)
    have "0 \<le> t * tw" using t a by simp
    moreover have "t * tw \<le> 1 * tw" using t a by (intro mult_right_mono) simp_all
    ultimately have "max (min 0 tw) (min (max 0 tw) (t * tw)) = t * tw"
      using a by simp
    then show ?thesis using False by (simp add: interpolate_Clamp p_def t_def)
  qed
  have rv: "rawValue p tw mn mx = v"
  proof (cases "mx = mn")
    case True
    then show ?thesis using a by (simp add: rawValue_def p_def)
  next
    case False
    define t where "t = (v - mn) / (mx - mn)"
    have t: "0 \<le> t" "t \<le> 1" using a False by (simp_all add: t_def)
    have p: "p = t * tw" using False by (simp add: p_def t_def)
    have "0 \<le> t * tw" using t a by simp
    moreover have "t * tw \<le> 1 * tw" using t a by (intro mult_right_mono) simp_all
    ultimately have c: "max 0 (min tw p) = p" using p by simp
    have "p / tw = t" using a p by simp
    moreover have "t * (mx - mn) = v - mn" using False a by (simp add: t_def)
    ultimately show ?thesis using a c by (simp add: rawValue_def)
  qed
  have "positionToValue p tw mn mx st = Some v"
    using a q rv by (simp add: positionToValue_eq)
  then show ?thesis
    using ip by (simp add: Slider_mount_def updateValue_def d p_def)
qed

theorem Slider_round_trip_witness:
  "min_val example_slider \<le> max_val example_slider \<and> 0 < trackWidth example_slider
    \<and> 0 < step example_slider \<and> min_val example_slider \<le> initialValue example_slider
    \<and> initialValue example_slider \<le> max_val example_slider
    \<and> initialValue example_slider = of_int 5 * step example_slider
    \<and> (\<exists>s. Slider_mount example_slider = Some s \<and> position s = 140
           \<and> updateValue example_slider (position s) = Some 50)"
  using Slider_round_trip [of example_slider 5]
  by (simp add: example_slider_def trackWidth_def)

section \<open>Claims about the theme colours\<close>

text \<open>
  C9: every colour slot is resolved on its own, to the override if there is one and
  to the entry of the theme table otherwise. With no override the dark theme resolves
  to exactly the five colours of the dark table, and with an override of \<open>thumbColor\<close>
  alone to the dark table with that one slot replaced.
\<close>

theorem useThemeColors_dark:
  "useThemeColors Dark noCustomColors = THEME_COLORS Dark
    \<and> useThemeColors Dark noCustomColors =
        \<lparr>trackColor = ''#262626'', activeTrackColor = ''#E5E5E5'', thumbColor = ''#0A0A0A'',
         thumbBorderColor = ''#E5E5E5'', thumbFocusRingColor = ''#3F3F3F''\<rparr>
    \<and> useThemeColors Dark (noCustomColors\<lparr>thumbColor := Some c\<rparr>)
        = (THEME_COLORS Dark)\<lparr>thumbColor := c\<rparr>
    \<and> useThemeColors th customColors =
        \<lparr>trackColor = nullish (trackColor customColors) (trackColor (THEME_COLORS th)),
         activeTrackColor =
           nullish (activeTrackColor customColors) (activeTrackColor (THEME_COLORS th)),
         thumbColor = nullish (thumbColor customColors) (thumbColor (THEME_COLORS th)),
         thumbBorderColor =
           nullish (thumbBorderColor customColors) (thumbBorderColor (THEME_COLORS th)),
         thumbFocusRingColor =
           nullish (thumbFocusRingColor customColors) (thumbFocusRingColor (THEME_COLORS th))\<rparr>"
  by (simp add: useThemeColors_def noCustomColors_def nullish_def Let_def)

section \<open>Claims about the RangeSlider\<close>

lemma pan_update_separates:
  assumes "is_pan_update e"
  shows "thumbSize P \<le> rightPosition (handle P s e) - leftPosition (handle P s e)"
  using assms
  by (cases e)
    (simp_all add: leftPanGesture_onUpdate_def rightPanGesture_onUpdate_def
      Math_min_eq Math_max_eq Let_def)

lemma run_snoc: "run P s (es @ [e]) = handle P (run P s es) e"
  by (simp add: run_def)

text \<open>
  C7: from any state, after each step of any sequence of left-pan and right-pan
  updates, \<open>rightPosition - leftPosition \<ge> thumbSize\<close>. The states after the steps are
  the states after the non-empty prefixes of the sequence.
\<close>

theorem pan_updates_keep_distance:
  assumes "\<forall>e \<in> set es. is_pan_update e" and "0 < n" and "n \<le> length es"
  shows "thumbSize P \<le> rightPosition (run P s (take n es)) - leftPosition (run P s (take n es))"
proof -
  from assms have ne: "take n es \<noteq> []" by auto
  then obtain fs e where fe: "take n es = fs @ [e]"
    by (metis rev_exhaust)
  then have "e \<in> set (take n es)" by simp
  then have "e \<in> set es" by (rule in_set_takeD)
  with assms have "is_pan_update e" by blast
  then show ?thesis unfolding fe run_snoc by (rule pan_update_separates)
qed

theorem pan_updates_keep_distance_witness:
  "is_pan_update (LeftPanUpdate 500) \<and> is_pan_update (RightPanUpdate (- 500))
    \<and> (0::nat) < 2 \<and> (2::nat) \<le> length [LeftPanUpdate 500, RightPanUpdate (- 500)]
    \<and> run example_range example_mounted (take 2 [LeftPanUpdate 500, RightPanUpdate (- 500)])
        = example_mounted\<lparr>leftPosition := 10, rightPosition := 30\<rparr>
    \<and> thumbSize example_range
        \<le> rightPosition (run example_range example_mounted
              (take 2 [LeftPanUpdate 500, RightPanUpdate (- 500)]))
          - leftPosition (run example_range example_mounted
              (take 2 [LeftPanUpdate 500, RightPanUpdate (- 500)]))"
  using pan_updates_keep_distance
    [of "[LeftPanUpdate 500, RightPanUpdate (- 500)]" 2 example_range example_mounted]
  by (simp add: run_def leftPanGesture_onUpdate_def rightPanGesture_onUpdate_def
      Math_min_def Math_max_def example_range_def example_mounted_def)

text \<open>
  C2 does not hold of the code, which misses the clamp against the other thumb in the
  tap handler: the RangeSlider \<open>example_range\<close> mounts with its thumbs at 0 and 30,
  where the range invariant holds, and a tap at \<open>x = 24\<close> puts the left thumb at 14,
  which is less than a thumb's width from the right thumb.
\<close>

theorem tap_breaks_range_invariant:
  "RangeSlider_mount example_range = Some example_mounted
    \<and> range_invariant example_range example_mounted
    \<and> run example_range example_mounted [TapStart 24] = example_mounted\<lparr>leftPosition := 14\<rparr>
    \<and> \<not> range_invariant example_range (run example_range example_mounted [TapStart 24])"
  by (simp add: RangeSlider_mount_def interpolate_def js_divide_def trackWidth_def
      range_invariant_def run_def tapGesture_onStart_def clampPosition_def
      Math_min_def Math_max_def Math_abs_def example_range_def example_mounted_def)

text \<open>
  C3 as stated fails on the tie: with the thumbs at 0 and 30 a tap at \<open>x = 25\<close> has the
  target 15, as far from one thumb as from the other, and the right thumb is moved;
  the left thumb stays where it was.
\<close>

theorem tap_tie_counterexample:
  "tapToMove example_range
    \<and> clampPosition (25 - thumbSize example_range / 2) 0 (trackWidth example_range) = 15
    \<and> Math_abs (15 - leftPosition example_mounted) = Math_abs (15 - rightPosition example_mounted)
    \<and> tapGesture_onStart example_range 25 example_mounted
        = example_mounted\<lparr>rightPosition := 15\<rparr>
    \<and> leftPosition (tapGesture_onStart example_range 25 example_mounted) \<noteq> 15"
  by (simp add: trackWidth_def tapGesture_onStart_def clampPosition_def
      Math_min_def Math_max_def Math_abs_def example_range_def example_mounted_def)

text \<open>
  C3, amended: in the tap handler (tap-to-move enabled) the target position is
  \<open>event.x - thumbSize / 2\<close> clamped to \<open>[0, trackWidth]\<close>; it is assigned to the left
  thumb when the left thumb is strictly nearer to the target, and to the right thumb
  otherwise, so a tie moves the right thumb. Nothing else of the state changes.
\<close>

theorem tap_moves_one_thumb:
  assumes "tapToMove P"
  shows "let target = clampPosition (x - thumbSize P / 2) 0 (trackWidth P);
             distToLeft = \<bar>target - leftPosition s\<bar>;
             distToRight = \<bar>target - rightPosition s\<bar>
         in (distToLeft < distToRight \<longrightarrow>
               tapGesture_onStart P x s = s\<lparr>leftPosition := target\<rparr>)
          \<and> (distToRight \<le> distToLeft \<longrightarrow>
               tapGesture_onStart P x s = s\<lparr>rightPosition := target\<rparr>)"
  using assms by (simp add: tapGesture_onStart_def Math_abs_eq Let_def)

theorem tap_moves_one_thumb_witness:
  "tapToMove example_range
    \<and> tapGesture_onStart example_range 24 example_mounted
        = example_mounted\<lparr>leftPosition := 14\<rparr>
    \<and> tapGesture_onStart example_range 25 example_mounted
        = example_mounted\<lparr>rightPosition := 15\<rparr>
    \<and> tapGesture_onStart example_range 26 example_mounted
        = example_mounted\<lparr>rightPosition := 16\<rparr>"
  using tap_moves_one_thumb [of example_range 24 example_mounted]
    tap_moves_one_thumb [of example_range 25 example_mounted]
    tap_moves_one_thumb [of example_range 26 example_mounted]
  by (simp add: trackWidth_def clampPosition_def Math_min_def Math_max_def
      example_range_def example_mounted_def)

text \<open>
  C10: the RangeSlider mounts with \<open>leftPosition\<close> and \<open>rightPosition\<close> each the
  clamped interpolation of its own initial value from \<open>[min, max]\<close> to
  \<open>[0, trackWidth]\<close>, with nothing that keeps them apart: equal initial values give
  equal positions, and there is a configuration with \<open>min < max\<close>, a track of positive
  width and thumbs of positive size that mounts with \<open>rightPosition - leftPosition = 0\<close>,
  less than the thumb size.
\<close>

theorem RangeSlider_mount_independent:
  "(\<exists>l r. interpolate (initialMin P) (min_val P, max_val P) (0, trackWidth P) Clamp = Some l
        \<and> interpolate (initialMax P) (min_val P, max_val P) (0, trackWidth P) Clamp = Some r
        \<and> RangeSlider_mount P =
            Some \<lparr>leftPosition = l, rightPosition = r,
                  startLeftPosition = 0, startRightPosition = 0,
                  isLeftThumbActive = 0, isRightThumbActive = 0\<rparr>
        \<and> (initialMin P = initialMax P \<longrightarrow> r - l = 0))
   \<and> (\<exists>Q s. min_val Q < max_val Q \<and> 0 < trackWidth Q \<and> 0 < thumbSize Q
        \<and> min_val Q \<le> initialMin Q \<and> initialMin Q = initialMax Q \<and> initialMax Q \<le> max_val Q
        \<and> RangeSlider_mount Q = Some s
        \<and> rightPosition s - leftPosition s = 0
        \<and> rightPosition s - leftPosition s < thumbSize Q)"
proof
  obtain l where l: "interpolate (initialMin P) (min_val P, max_val P) (0, trackWidth P) Clamp = Some l"
    by (simp add: interpolate_Clamp)
  obtain r where r: "interpolate (initialMax P) (min_val P, max_val P) (0, trackWidth P) Clamp = Some r"
    by (simp add: interpolate_Clamp)
  have "initialMin P = initialMax P \<longrightarrow> r - l = 0" using l r by auto
  then show "\<exists>l r. interpolate (initialMin P) (min_val P, max_val P) (0, trackWidth P) Clamp = Some l
        \<and> interpolate (initialMax P) (min_val P, max_val P) (0, trackWidth P) Clamp = Some r
        \<and> RangeSlider_mount P =
            Some \<lparr>leftPosition = l, rightPosition = r,
                  startLeftPosition = 0, startRightPosition = 0,
                  isLeftThumbActive = 0, isRightThumbActive = 0\<rparr>
        \<and> (initialMin P = initialMax P \<longrightarrow> r - l = 0)"
    using l r by (simp add: RangeSlider_mount_def)
next
  have "RangeSlider_mount example_collapsed =
          Some \<lparr>leftPosition = 140, rightPosition = 140,
                startLeftPosition = 0, startRightPosition = 0,
                isLeftThumbActive = 0, isRightThumbActive = 0\<rparr>"
    by (simp add: RangeSlider_mount_def interpolate_def js_divide_def trackWidth_def
        example_collapsed_def)
  then show "\<exists>Q s. min_val Q < max_val Q \<and> 0 < trackWidth Q \<and> 0 < thumbSize Q
        \<and> min_val Q \<le> initialMin Q \<and> initialMin Q = initialMax Q \<and> initialMax Q \<le> max_val Q
        \<and> RangeSlider_mount Q = Some s
        \<and> rightPosition s - leftPosition s = 0
        \<and> rightPosition s - leftPosition s < thumbSize Q"
    by (intro exI [of _ example_collapsed]
        exI [of _ "\<lparr>leftPosition = 140, rightPosition = 140,
                startLeftPosition = 0, startRightPosition = 0,
                isLeftThumbActive = 0, isRightThumbActive = 0\<rparr>"])
      (simp add: trackWidth_def example_collapsed_def)
qed

theorem RangeSlider_mount_independent_witness:
  "initialMin example_collapsed = initialMax example_collapsed
    \<and> interpolate (initialMin example_collapsed)
         (min_val example_collapsed, max_val example_collapsed)
         (0, trackWidth example_collapsed) Clamp = Some 140
    \<and> RangeSlider_mount example_collapsed =
         Some \<lparr>leftPosition = 140, rightPosition = 140,
               startLeftPosition = 0, startRightPosition = 0,
               isLeftThumbActive = 0, isRightThumbActive = 0\<rparr>"
  using RangeSlider_mount_independent [of example_collapsed]
  by (simp add: interpolate_def js_divide_def trackWidth_def example_collapsed_def)

end
